theory Spec2Isabelle
  imports Complex_Main "HOL-Library.Word"
begin

section \<open>The serial port\<close>

text \<open>
  The sketch \<^verbatim>\<open>GSRsensor/sketch_aug11a/sketch_aug11a.ino\<close> talks to the outside through
  \<^verbatim>\<open>Serial.print\<close> and \<^verbatim>\<open>Serial.println\<close>. Each call is one item of the output; the
  output of a run is the list of the items written so far, oldest first. A finite
  floating-point value is the real number it denotes (NaN and the infinities are not
  modelled); the timestamp is the 32-bit \<^verbatim>\<open>unsigned long\<close> that \<^verbatim>\<open>millis()\<close> returns.
\<close>

datatype serial_item =
    Print_str string
  | Print_double real
  | Println_str string
  | Println_double real
  | Println_ulong "32 word"

section \<open>The globals of the sketch\<close>

text \<open>
  \<^verbatim>\<open>SimpleKalmanFilter gsrKalmanFilter(2, 2, 0.01);\<close>
  \<^verbatim>\<open>SimpleKalmanFilter baselineKalmanFilter(10, 10, 0.001);\<close>
  \<^verbatim>\<open>long lastEventTime = 0;\<close>

  The class \<^verbatim>\<open>SimpleKalmanFilter\<close> belongs to a library that the sketch includes; its
  objects are values of a type parameter \<open>'e\<close> here. \<open>lastEventTime\<close> holds the value of
  the signed 32-bit \<^verbatim>\<open>long\<close>.
\<close>

record 'e sketch =
  gsrKalmanFilter :: 'e
  baselineKalmanFilter :: 'e
  lastEventTime :: int
  serial :: "serial_item list"

definition PHASIC_THRESHOLD :: real where
  "PHASIC_THRESHOLD = 13.0"

definition REFRACTORY_PERIOD :: int where
  "REFRACTORY_PERIOD = 2500"

section \<open>The clock\<close>

text \<open>
  \<^verbatim>\<open>millis()\<close> returns the milliseconds elapsed since the board started, as an
  \<^verbatim>\<open>unsigned long\<close>: the true count modulo \<open>2 ^ 32\<close>. One call of \<^verbatim>\<open>detectStress\<close>
  reads the clock up to three times (in the refractory check, in the event line, and in
  the assignment to \<^verbatim>\<open>lastEventTime\<close>), and printing takes time in between, so the model
  is given the true time of each of the three reads.
\<close>

definition millis :: "nat \<Rightarrow> 32 word" where
  "millis t = of_nat t"

record clock =
  at_check :: nat
  at_print :: nat
  at_store :: nat

section \<open>detectStress\<close>

definition Serial_write :: "serial_item \<Rightarrow> 'e sketch \<Rightarrow> 'e sketch" where
  "Serial_write item s = s\<lparr>serial := serial s @ [item]\<rparr>"

text \<open>
  In \<^verbatim>\<open>millis() - lastEventTime > REFRACTORY_PERIOD\<close> the left operand is
  \<^verbatim>\<open>unsigned long\<close>, so the \<^verbatim>\<open>long\<close> and the \<^verbatim>\<open>int\<close> are both converted to
  \<^verbatim>\<open>unsigned long\<close> (\<open>word_of_int\<close>), the subtraction wraps and the comparison is
  unsigned. \<^verbatim>\<open>lastEventTime = millis()\<close> converts back to \<^verbatim>\<open>long\<close>, keeping the 32
  bits as the Arduino compilers do (\<open>sint\<close>). \<open>long\<close> and \<open>unsigned long\<close> are 32 bits
  wide on the Arduino boards; the width of \<open>int\<close> does not matter for the value 2500.

  \<^verbatim>\<open>currentSignal - currentBaseline\<close> is a floating-point subtraction: its result is the
  exact difference rounded to the format of \<^verbatim>\<open>double\<close> (32 bits wide on the AVR boards,
  64 elsewhere). The rounding is not modelled; the operation is the parameter \<open>fsub\<close>,
  and what is proved holds for every such operation. \<open>phasicSignal\<close> is the computed
  value. The comparison with \<open>PHASIC_THRESHOLD\<close> is exact, since 13.0 is a floating-point
  number.
\<close>

definition detectStress ::
  "(real \<Rightarrow> real \<Rightarrow> real) \<Rightarrow> clock \<Rightarrow> real \<Rightarrow> real \<Rightarrow> 'e sketch \<Rightarrow> 'e sketch" where
  "detectStress fsub c currentSignal currentBaseline s =
     (let s1 = Serial_write (Print_str ''Baseline:'') s;
          s2 = Serial_write (Print_double currentBaseline) s1;
          s3 = Serial_write (Print_str '', Signal:'') s2;
          s4 = Serial_write (Println_double currentSignal) s3;
          phasicSignal = fsub currentSignal currentBaseline
      in
        if millis (at_check c) - word_of_int (lastEventTime s4) > word_of_int REFRACTORY_PERIOD
        then
          if phasicSignal > PHASIC_THRESHOLD
          then
            (let s5 = Serial_write (Print_str ''Stress event detected at timestamp (ms): '') s4;
                 s6 = Serial_write (Println_ulong (millis (at_print c))) s5
             in s6\<lparr>lastEventTime := sint (millis (at_store c))\<rparr>)
          else s4
        else s4)"

text \<open>
  What an observer of the serial port sees of the detector: the timestamps of the
  stress-event lines, and whether a call added one.
\<close>

definition stress_log :: "serial_item list \<Rightarrow> 32 word list" where
  "stress_log out = concat (map (\<lambda>i. case i of Println_ulong t \<Rightarrow> [t] | _ \<Rightarrow> []) out)"

definition fired :: "'e sketch \<Rightarrow> 'e sketch \<Rightarrow> bool" where
  "fired s s' \<longleftrightarrow> stress_log (serial s') \<noteq> stress_log (serial s)"

definition signal_line :: "real \<Rightarrow> real \<Rightarrow> serial_item list" where
  "signal_line currentBaseline currentSignal =
     [Print_str ''Baseline:'', Print_double currentBaseline,
      Print_str '', Signal:'', Println_double currentSignal]"

definition event_line :: "32 word \<Rightarrow> serial_item list" where
  "event_line t = [Print_str ''Stress event detected at timestamp (ms): '', Println_ulong t]"

section \<open>Power-on and setup\<close>

text \<open>
  The globals as their initialisers leave them; the constructor of the library's filter
  class is a parameter. \<^verbatim>\<open>setup()\<close> opens the port and prints three banner lines.
\<close>

definition power_on :: "(real \<Rightarrow> real \<Rightarrow> real \<Rightarrow> 'e) \<Rightarrow> 'e sketch" where
  "power_on SimpleKalmanFilter =
     \<lparr>gsrKalmanFilter = SimpleKalmanFilter 2 2 0.01,
      baselineKalmanFilter = SimpleKalmanFilter 10 10 0.001,
      lastEventTime = 0,
      serial = []\<rparr>"

definition sketch_setup :: "'e sketch \<Rightarrow> 'e sketch" where
  "sketch_setup s =
     (let s1 = Serial_write (Println_str ''GSR Dynamic Baseline Stress Detection (Phasic Threshold)'') s;
          s2 = Serial_write (Println_str ''Monitoring will begin immediately...'') s1
      in Serial_write (Println_str ''---------------------------------'') s2)"

section \<open>loop\<close>

text \<open>
  One pass of \<^verbatim>\<open>loop()\<close>: read the sensor, update the two filters, call the detector.
  \<^verbatim>\<open>analogRead(GSR_PIN)\<close> is the \<^verbatim>\<open>int\<close> argument \<open>rawValue\<close>, converted to a floating-point
  number at each call of \<^verbatim>\<open>updateEstimate\<close>. That method of the library is the parameter
  \<open>updateEstimate\<close>: from a filter object and a measurement it gives the estimate that
  it returns and the object as it leaves it. The closing \<^verbatim>\<open>delay(50)\<close> only lets time
  pass, and the time of every clock read is an argument. \<open>fsub\<close> is the floating-point
  subtraction that \<open>detectStress\<close> uses.
\<close>

definition loop ::
  "(real \<Rightarrow> real \<Rightarrow> real) \<Rightarrow> ('e \<Rightarrow> real \<Rightarrow> real \<times> 'e) \<Rightarrow> int \<Rightarrow> clock \<Rightarrow> 'e sketch \<Rightarrow> 'e sketch" where
  "loop fsub updateEstimate rawValue c s =
     (let (fastSignal, g) = updateEstimate (gsrKalmanFilter s) (real_of_int rawValue);
          s1 = s\<lparr>gsrKalmanFilter := g\<rparr>;
          (slowBaseline, b) = updateEstimate (baselineKalmanFilter s1) (real_of_int rawValue);
          s2 = s1\<lparr>baselineKalmanFilter := b\<rparr>
      in detectStress fsub c fastSignal slowBaseline s2)"

text \<open>
  A run of the sketch after \<^verbatim>\<open>setup()\<close> is a list of ticks, each the sensor reading and
  the clock of one pass of \<^verbatim>\<open>loop()\<close>. \<open>event_times\<close> lists the true times at which the
  passes that emit an event read the clock for the event line.
\<close>

fun run ::
  "(real \<Rightarrow> real \<Rightarrow> real) \<Rightarrow> ('e \<Rightarrow> real \<Rightarrow> real \<times> 'e) \<Rightarrow> (int \<times> clock) list \<Rightarrow> 'e sketch \<Rightarrow> 'e sketch" where
  "run fsub updateEstimate [] s = s"
| "run fsub updateEstimate ((rawValue, c) # ticks) s =
     run fsub updateEstimate ticks (loop fsub updateEstimate rawValue c s)"

fun event_times ::
  "(real \<Rightarrow> real \<Rightarrow> real) \<Rightarrow> ('e \<Rightarrow> real \<Rightarrow> real \<times> 'e) \<Rightarrow> (int \<times> clock) list \<Rightarrow> 'e sketch \<Rightarrow> nat list" where
  "event_times fsub updateEstimate [] s = []"
| "event_times fsub updateEstimate ((rawValue, c) # ticks) s =
     (if fired s (loop fsub updateEstimate rawValue c s) then [at_print c] else [])
       @ event_times fsub updateEstimate ticks (loop fsub updateEstimate rawValue c s)"

text \<open>The clock never runs backwards: the reads of a run, in order, from time \<open>t\<close> on.\<close>

fun monotonic :: "nat \<Rightarrow> (int \<times> clock) list \<Rightarrow> bool" where
  "monotonic t [] = True"
| "monotonic t ((rawValue, c) # ticks) =
     (t \<le> at_check c \<and> at_check c \<le> at_print c \<and> at_print c \<le> at_store c
       \<and> monotonic (at_store c) ticks)"

section \<open>The recursive estimator\<close>

text \<open>
  Modelled from the spec: the update operation of the recursive estimator. The sketch
  calls \<^verbatim>\<open>SimpleKalmanFilter::updateEstimate\<close>, a method of a library whose source is not
  in the repository; only the two constructor calls and the two calls of the method are.
  The record and the four steps below follow the specification's description of the
  estimator (estimate \<open>x\<close>, error covariance \<open>p\<close>, process noise \<open>q\<close>, measurement noise
  \<open>r\<close>), over the real numbers.
\<close>

record estimator =
  estimate :: real
  uncertainty :: real
  processNoise :: real
  measurementNoise :: real

text \<open>
  Modelled from the spec: the gain of the next update, steps 1 and 2 of the cycle
  (\<open>p' = p + q\<close>, \<open>k = p' / (p' + r)\<close>).
\<close>

definition gain :: "estimator \<Rightarrow> real" where
  "gain e = (let p' = uncertainty e + processNoise e in p' / (p' + measurementNoise e))"

text \<open>
  Modelled from the spec: \<open>update(rawSample) -> estimate\<close>, the four steps predict, gain,
  correct, covariance update; it returns the new estimate and the estimator as the
  update leaves it.
\<close>

definition update :: "estimator \<Rightarrow> real \<Rightarrow> real \<times> estimator" where
  "update e rawSample =
     (let p' = uncertainty e + processNoise e;
          k = p' / (p' + measurementNoise e);
          x' = estimate e + k * (rawSample - estimate e);
          p_next = (1 - k) * p'
      in (x', e\<lparr>estimate := x', uncertainty := p_next\<rparr>))"

text \<open>Modelled from the spec: the estimator after one update per tick, for a list of samples.\<close>

fun updates :: "estimator \<Rightarrow> real list \<Rightarrow> estimator" where
  "updates e [] = e"
| "updates e (rawSample # rest) = updates (snd (update e rawSample)) rest"

text \<open>
  Modelled from the spec: the configurations that the specification accepts, positive
  noise parameters and a non-negative uncertainty.
\<close>

definition well_configured :: "estimator \<Rightarrow> bool" where
  "well_configured e \<longleftrightarrow> 0 \<le> uncertainty e \<and> 0 < processNoise e \<and> 0 < measurementNoise e"

section \<open>What one call of detectStress does\<close>

lemma stress_log_append: "stress_log (xs @ ys) = stress_log xs @ stress_log ys"
  by (simp add: stress_log_def)

lemma stress_log_signal_line: "stress_log (signal_line b x) = []"
  by (simp add: stress_log_def signal_line_def)

lemma stress_log_event_line: "stress_log (event_line t) = [t]"
  by (simp add: stress_log_def event_line_def)

lemma detectStress_cases:
  "detectStress fsub c x b s =
     (if millis (at_check c) - word_of_int (lastEventTime s) > 2500 \<and> fsub x b > 13
      then s\<lparr>serial := serial s @ signal_line b x @ event_line (millis (at_print c)),
             lastEventTime := sint (millis (at_store c))\<rparr>
      else s\<lparr>serial := serial s @ signal_line b x\<rparr>)"
  by (simp add: detectStress_def Serial_write_def Let_def signal_line_def event_line_def
      PHASIC_THRESHOLD_def REFRACTORY_PERIOD_def)

lemma fired_detectStress:
  "fired s (detectStress fsub c x b s) \<longleftrightarrow>
     millis (at_check c) - word_of_int (lastEventTime s) > 2500 \<and> fsub x b > 13"
  by (simp add: fired_def detectStress_cases stress_log_append stress_log_signal_line
      stress_log_event_line)

section \<open>Claims about detectStress\<close>

text \<open>
  Claim C9. A call of \<open>detectStress\<close> that emits no event, because the refractory check
  fails or because the phasic value does not strictly exceed the threshold, leaves
  \<open>lastEventTime\<close> as it was.
\<close>

theorem detectStress_silent_keeps_lastEventTime:
  assumes "\<not> fired s (detectStress fsub c currentSignal currentBaseline s)"
  shows "lastEventTime (detectStress fsub c currentSignal currentBaseline s) = lastEventTime s"
proof -
  from assms
  have "\<not> (millis (at_check c) - word_of_int (lastEventTime s) > 2500
           \<and> fsub currentSignal currentBaseline > 13)"
    by (simp add: fired_detectStress)
  then show ?thesis
    by (auto simp: detectStress_cases)
qed

theorem detectStress_silent_keeps_lastEventTime_witness:
  "\<not> fired \<lparr>gsrKalmanFilter = (), baselineKalmanFilter = (), lastEventTime = 7, serial = []\<rparr>
       (detectStress (-) \<lparr>at_check = 100, at_print = 100, at_store = 100\<rparr> 520 500
          \<lparr>gsrKalmanFilter = (), baselineKalmanFilter = (), lastEventTime = 7, serial = []\<rparr>)
   \<and> lastEventTime (detectStress (-) \<lparr>at_check = 100, at_print = 100, at_store = 100\<rparr> 520 500
          \<lparr>gsrKalmanFilter = (), baselineKalmanFilter = (), lastEventTime = 7, serial = []\<rparr>) = 7"
proof -
  have h: "\<not> fired \<lparr>gsrKalmanFilter = (), baselineKalmanFilter = (), lastEventTime = 7, serial = []\<rparr>
       (detectStress (-) \<lparr>at_check = 100, at_print = 100, at_store = 100\<rparr> 520 500
          \<lparr>gsrKalmanFilter = (), baselineKalmanFilter = (), lastEventTime = 7, serial = []\<rparr>)"
    by (simp add: fired_detectStress millis_def)
  show ?thesis
    using h detectStress_silent_keeps_lastEventTime [OF h] by simp
qed

lemma lastEventTime_sketch_setup: "lastEventTime (sketch_setup s) = lastEventTime s"
  by (simp add: sketch_setup_def Serial_write_def)

text \<open>
  Claim C2. The threshold comparison is strict. In a call whose refractory check passes
  (the elapsed time, as the code computes it, strictly exceeds the refractory period), a
  phasic value, the floating-point difference \<open>fsub currentSignal currentBaseline\<close> that
  the call computes, exactly equal to \<open>PHASIC_THRESHOLD\<close> emits no event, and an event is
  emitted exactly when the phasic value is strictly greater than the threshold.
\<close>

theorem detectStress_threshold_strict:
  assumes "millis (at_check c) - word_of_int (lastEventTime s) > word_of_int REFRACTORY_PERIOD"
  shows "(fsub currentSignal currentBaseline = PHASIC_THRESHOLD \<longrightarrow>
            \<not> fired s (detectStress fsub c currentSignal currentBaseline s))
       \<and> (fired s (detectStress fsub c currentSignal currentBaseline s)
            = (fsub currentSignal currentBaseline > PHASIC_THRESHOLD))"
  using assms
  by (simp add: fired_detectStress PHASIC_THRESHOLD_def REFRACTORY_PERIOD_def)

text \<open>
  The witness takes the exact subtraction at operands whose difference is a
  floating-point number (513 - 500 and 513.5 - 500), and a subtraction that rounds
  \<open>13 + 1 / 2 ^ 60\<close> to 13, as the subtraction of doubles does: there the exact difference
  exceeds the threshold, the computed one equals it, and no event is emitted.
\<close>

theorem detectStress_threshold_strict_witness:
  "millis (at_check \<lparr>at_check = 5000, at_print = 5001, at_store = 5002\<rparr>) - word_of_int (lastEventTime (sketch_setup (power_on (\<lambda>a b c. ()))))
      > word_of_int REFRACTORY_PERIOD
   \<and> (513::real) - 500 = PHASIC_THRESHOLD
   \<and> \<not> fired (sketch_setup (power_on (\<lambda>a b c. ())))
        (detectStress (-) \<lparr>at_check = 5000, at_print = 5001, at_store = 5002\<rparr> 513 500 (sketch_setup (power_on (\<lambda>a b c. ()))))
   \<and> (513.5::real) - 500 > PHASIC_THRESHOLD
   \<and> fired (sketch_setup (power_on (\<lambda>a b c. ())))
        (detectStress (-) \<lparr>at_check = 5000, at_print = 5001, at_store = 5002\<rparr> 513.5 500 (sketch_setup (power_on (\<lambda>a b c. ()))))
   \<and> (\<lambda>x y. if x = 13 \<and> y = - (1 / 2 ^ 60) then 13 else x - y) 13 (- (1 / 2 ^ 60)) = PHASIC_THRESHOLD
   \<and> \<not> fired (sketch_setup (power_on (\<lambda>a b c. ())))
        (detectStress (\<lambda>x y. if x = 13 \<and> y = - (1 / 2 ^ 60) then 13 else x - y)
           \<lparr>at_check = 5000, at_print = 5001, at_store = 5002\<rparr> 13 (- (1 / 2 ^ 60)) (sketch_setup (power_on (\<lambda>a b c. ()))))"
proof -
  have h: "millis (at_check \<lparr>at_check = 5000, at_print = 5001, at_store = 5002\<rparr>) - word_of_int (lastEventTime (sketch_setup (power_on (\<lambda>a b c. ()))))
      > word_of_int REFRACTORY_PERIOD"
    by (simp add: lastEventTime_sketch_setup power_on_def millis_def REFRACTORY_PERIOD_def)
  have e1: "(513::real) - 500 = PHASIC_THRESHOLD"
    by (simp add: PHASIC_THRESHOLD_def)
  have e2: "(\<lambda>x y. if x = 13 \<and> y = - (1 / 2 ^ 60) then 13 else x - y) 13 (- (1 / 2 ^ 60)) = PHASIC_THRESHOLD"
    by (simp add: PHASIC_THRESHOLD_def)
  have g: "(513.5::real) - 500 > PHASIC_THRESHOLD"
    by (simp add: PHASIC_THRESHOLD_def)
  note t1 = detectStress_threshold_strict [OF h,
      where fsub = "(-)" and currentSignal = 513 and currentBaseline = 500]
  note t2 = detectStress_threshold_strict [OF h,
      where fsub = "(-)" and currentSignal = "513.5" and currentBaseline = 500]
  note t3 = detectStress_threshold_strict [OF h,
      where fsub = "(\<lambda>x y. if x = 13 \<and> y = - (1 / 2 ^ 60) then 13 else x - y)"
        and currentSignal = 13 and currentBaseline = "- (1 / 2 ^ 60)"]
  from t1 e1 have n1: "\<not> fired (sketch_setup (power_on (\<lambda>a b c. ())))
        (detectStress (-) \<lparr>at_check = 5000, at_print = 5001, at_store = 5002\<rparr> 513 500 (sketch_setup (power_on (\<lambda>a b c. ()))))"
    by blast
  from t2 g have f2: "fired (sketch_setup (power_on (\<lambda>a b c. ())))
        (detectStress (-) \<lparr>at_check = 5000, at_print = 5001, at_store = 5002\<rparr> 513.5 500 (sketch_setup (power_on (\<lambda>a b c. ()))))"
    by blast
  from t3 e2 have n3: "\<not> fired (sketch_setup (power_on (\<lambda>a b c. ())))
        (detectStress (\<lambda>x y. if x = 13 \<and> y = - (1 / 2 ^ 60) then 13 else x - y)
           \<lparr>at_check = 5000, at_print = 5001, at_store = 5002\<rparr> 13 (- (1 / 2 ^ 60)) (sketch_setup (power_on (\<lambda>a b c. ()))))"
    by blast
  from h e1 n1 g f2 e2 n3 show ?thesis
    by blast
qed

text \<open>
  Claim C4. An event fires only if the current time minus \<open>lastEventTime\<close>, as the code
  computes it from the clock read in the check, strictly exceeds the refractory period;
  and whenever an event fires, \<open>lastEventTime\<close> becomes the current time, the value of
  \<^verbatim>\<open>millis()\<close> read by the assignment.
\<close>

theorem detectStress_fires_only_armed_and_restarts_timer:
  assumes "fired s (detectStress fsub c currentSignal currentBaseline s)"
  shows "millis (at_check c) - word_of_int (lastEventTime s) > word_of_int REFRACTORY_PERIOD
       \<and> lastEventTime (detectStress fsub c currentSignal currentBaseline s) = sint (millis (at_store c))
       \<and> word_of_int (lastEventTime (detectStress fsub c currentSignal currentBaseline s))
           = millis (at_store c)"
proof -
  from assms
  have "millis (at_check c) - word_of_int (lastEventTime s) > 2500
          \<and> fsub currentSignal currentBaseline > 13"
    by (simp add: fired_detectStress)
  then show ?thesis
    by (simp add: detectStress_cases REFRACTORY_PERIOD_def)
qed

theorem detectStress_fires_only_armed_and_restarts_timer_witness:
  "fired (sketch_setup (power_on (\<lambda>a b c. ())))
        (detectStress (-) \<lparr>at_check = 5000, at_print = 5001, at_store = 5002\<rparr>
           520 500 (sketch_setup (power_on (\<lambda>a b c. ()))))
   \<and> lastEventTime (detectStress (-) \<lparr>at_check = 5000, at_print = 5001, at_store = 5002\<rparr>
           520 500 (sketch_setup (power_on (\<lambda>a b c. ())))) = 5002"
proof -
  have h: "fired (sketch_setup (power_on (\<lambda>a b c. ())))
        (detectStress (-) \<lparr>at_check = 5000, at_print = 5001, at_store = 5002\<rparr>
           520 500 (sketch_setup (power_on (\<lambda>a b c. ()))))"
    by (simp add: fired_detectStress lastEventTime_sketch_setup power_on_def millis_def)
  show ?thesis
    using h detectStress_fires_only_armed_and_restarts_timer [OF h]
    by (simp add: millis_def)
qed

text \<open>
  Claim C5. The refractory comparison is strict. A call in which the elapsed time, as
  the code computes it, is at most the refractory period emits nothing, whatever the
  phasic value; in particular when the elapsed time is exactly the refractory period.
  So the detector re-arms only once the elapsed time strictly exceeds the period.
\<close>

theorem detectStress_refractory_strict:
  assumes "millis (at_check c) - word_of_int (lastEventTime s) \<le> word_of_int REFRACTORY_PERIOD"
  shows "\<not> fired s (detectStress fsub c currentSignal currentBaseline s)"
  using assms
  by (simp add: fired_detectStress REFRACTORY_PERIOD_def not_less)

theorem detectStress_refractory_strict_witness:
  "millis (at_check \<lparr>at_check = 5500, at_print = 5500, at_store = 5500\<rparr>)
      - word_of_int (lastEventTime
          \<lparr>gsrKalmanFilter = (), baselineKalmanFilter = (), lastEventTime = 3000, serial = []\<rparr>)
      = word_of_int REFRACTORY_PERIOD
   \<and> \<not> fired \<lparr>gsrKalmanFilter = (), baselineKalmanFilter = (), lastEventTime = 3000, serial = []\<rparr>
        (detectStress (-) \<lparr>at_check = 5500, at_print = 5500, at_store = 5500\<rparr> 900 500
           \<lparr>gsrKalmanFilter = (), baselineKalmanFilter = (), lastEventTime = 3000, serial = []\<rparr>)"
proof -
  have h: "millis (at_check \<lparr>at_check = 5500, at_print = 5500, at_store = 5500\<rparr>)
      - word_of_int (lastEventTime
          \<lparr>gsrKalmanFilter = (), baselineKalmanFilter = (), lastEventTime = 3000, serial = []\<rparr>)
      = word_of_int REFRACTORY_PERIOD"
    by (simp add: millis_def REFRACTORY_PERIOD_def)
  then have h': "millis (at_check \<lparr>at_check = 5500, at_print = 5500, at_store = 5500\<rparr>)
      - word_of_int (lastEventTime
          \<lparr>gsrKalmanFilter = (), baselineKalmanFilter = (), lastEventTime = 3000, serial = []\<rparr>)
      \<le> word_of_int REFRACTORY_PERIOD"
    by simp
  show ?thesis
    using h detectStress_refractory_strict [OF h',
        where fsub = "(-)" and currentSignal = 900 and currentBaseline = 500]
    by simp
qed

text \<open>
  Claim C10. Every call of \<open>detectStress\<close> first appends exactly one line
  \<^verbatim>\<open>Baseline:<baseline>, Signal:<signal>\<close> to the serial output, whether or not an event
  fires; the event line, when there is one, comes after it.
\<close>

theorem detectStress_always_prints_signal_line:
  "serial (detectStress fsub c currentSignal currentBaseline s)
     = serial s @ signal_line currentBaseline currentSignal
        @ (if fired s (detectStress fsub c currentSignal currentBaseline s)
           then event_line (millis (at_print c)) else [])
   \<and> length (filter (\<lambda>i. i = Print_str ''Baseline:'')
        (drop (length (serial s)) (serial (detectStress fsub c currentSignal currentBaseline s)))) = 1"
proof -
  have "fired s (detectStress fsub c currentSignal currentBaseline s)
          = (millis (at_check c) - word_of_int (lastEventTime s) > 2500
              \<and> fsub currentSignal currentBaseline > 13)"
    by (simp add: fired_detectStress)
  then show ?thesis
    by (simp add: detectStress_cases signal_line_def event_line_def)
qed

section \<open>What one pass of loop does\<close>

lemma loop_eq:
  "loop fsub u raw c s =
     detectStress fsub c (fst (u (gsrKalmanFilter s) (real_of_int raw)))
       (fst (u (baselineKalmanFilter s) (real_of_int raw)))
       (s\<lparr>gsrKalmanFilter := snd (u (gsrKalmanFilter s) (real_of_int raw)),
          baselineKalmanFilter := snd (u (baselineKalmanFilter s) (real_of_int raw))\<rparr>)"
  by (simp add: loop_def split_beta Let_def)

lemma fired_loop:
  "fired s (loop fsub u raw c s) \<longleftrightarrow>
     millis (at_check c) - word_of_int (lastEventTime s) > 2500
     \<and> fsub (fst (u (gsrKalmanFilter s) (real_of_int raw)))
          (fst (u (baselineKalmanFilter s) (real_of_int raw))) > 13"
  by (simp add: loop_eq fired_def detectStress_cases stress_log_append stress_log_signal_line
      stress_log_event_line)

lemma lastEventTime_loop:
  "lastEventTime (loop fsub u raw c s) =
     (if fired s (loop fsub u raw c s) then sint (millis (at_store c)) else lastEventTime s)"
  unfolding fired_loop by (simp add: loop_eq detectStress_cases)

lemma stress_log_loop:
  "stress_log (serial (loop fsub u raw c s)) =
     stress_log (serial s) @ (if fired s (loop fsub u raw c s) then [millis (at_print c)] else [])"
  unfolding fired_loop
  by (simp add: loop_eq detectStress_cases stress_log_append stress_log_signal_line
      stress_log_event_line)

lemma elapsed_true:
  assumes "t0 \<le> t" and "millis t - millis t0 > 2500"
  shows "t0 + 2500 < t"
proof -
  from assms(1) have "millis t - millis t0 = (of_nat (t - t0) :: 32 word)"
    by (simp add: millis_def)
  with assms(2) have "2500 < unat (of_nat (t - t0) :: 32 word)"
    by (simp add: word_less_nat_alt)
  also have "unat (of_nat (t - t0) :: 32 word) \<le> t - t0"
    by (simp add: unat_of_nat)
  finally show ?thesis by simp
qed

lemma event_times_separated:
  "monotonic t0 ticks \<Longrightarrow> word_of_int (lastEventTime s) = millis tlast \<Longrightarrow> tlast \<le> t0 \<Longrightarrow>
     (\<forall>t \<in> set (event_times fsub u ticks s). tlast + 2500 < t)
     \<and> sorted_wrt (\<lambda>t t'. t + 2500 < t') (event_times fsub u ticks s)"
proof (induction ticks arbitrary: s t0 tlast)
  case Nil
  then show ?case by simp
next
  case (Cons tick ticks)
  obtain raw c where tick: "tick = (raw, c)" by (cases tick)
  let ?s' = "loop fsub u raw c s"
  from Cons.prems tick have mono: "t0 \<le> at_check c" "at_check c \<le> at_print c"
    "at_print c \<le> at_store c" "monotonic (at_store c) ticks"
    by simp_all
  show ?case
  proof (cases "fired s ?s'")
    case True
    then have "millis (at_check c) - millis tlast > 2500"
      using Cons.prems(2) by (simp add: fired_loop)
    with Cons.prems(3) mono(1) have far: "tlast + 2500 < at_check c"
      by (intro elapsed_true) simp_all
    from True have "word_of_int (lastEventTime ?s') = millis (at_store c)"
      by (simp add: lastEventTime_loop)
    from Cons.IH [OF mono(4) this order_refl]
    have rest: "\<forall>t \<in> set (event_times fsub u ticks ?s'). at_store c + 2500 < t"
      "sorted_wrt (\<lambda>t t'. t + 2500 < t') (event_times fsub u ticks ?s')"
      by simp_all
    from True tick have "event_times fsub u (tick # ticks) s = at_print c # event_times fsub u ticks ?s'"
      by simp
    with rest far mono show ?thesis by fastforce
  next
    case False
    then have "word_of_int (lastEventTime ?s') = millis tlast"
      using Cons.prems(2) by (simp add: lastEventTime_loop)
    moreover from Cons.prems(3) mono have "tlast \<le> at_store c" by simp
    ultimately have "(\<forall>t \<in> set (event_times fsub u ticks ?s'). tlast + 2500 < t)
      \<and> sorted_wrt (\<lambda>t t'. t + 2500 < t') (event_times fsub u ticks ?s')"
      using Cons.IH [OF mono(4)] by blast
    with False tick show ?thesis by simp
  qed
qed

lemma stress_log_run:
  "stress_log (serial (run fsub u ticks s)) = stress_log (serial s) @ map millis (event_times fsub u ticks s)"
proof (induction ticks arbitrary: s)
  case Nil
  then show ?case by simp
next
  case (Cons tick ticks)
  obtain raw c where tick: "tick = (raw, c)" by (cases tick)
  show ?case
    unfolding tick by (simp add: Cons.IH stress_log_loop)
qed

lemma filters_sketch_setup:
  "gsrKalmanFilter (sketch_setup s) = gsrKalmanFilter s"
  "baselineKalmanFilter (sketch_setup s) = baselineKalmanFilter s"
  by (simp_all add: sketch_setup_def Serial_write_def)

lemma filters_loop:
  "gsrKalmanFilter (loop fsub u raw c s) = snd (u (gsrKalmanFilter s) (real_of_int raw))"
  "baselineKalmanFilter (loop fsub u raw c s) = snd (u (baselineKalmanFilter s) (real_of_int raw))"
  by (simp_all add: loop_eq detectStress_cases)

lemma stress_log_boot: "stress_log (serial (sketch_setup (power_on K))) = []"
  by (simp add: sketch_setup_def Serial_write_def power_on_def stress_log_def)

section \<open>Claims about the start and the tick loop\<close>

text \<open>
  Claim C3, as the specification states it, fails: with \<open>lastEventTime\<close> initialised to
  \<open>0\<close> the detector is not armed at the start. A first call 100 ms after the start with
  signal 520 and baseline 500, whose difference 20 is computed without rounding and is
  above the threshold of 13, emits no event.
\<close>

theorem detectStress_not_armed_at_start_counterexample:
  "(520::real) - 500 > PHASIC_THRESHOLD
   \<and> lastEventTime (sketch_setup (power_on (\<lambda>a b c. ()))) = 0
   \<and> \<not> fired (sketch_setup (power_on (\<lambda>a b c. ())))
        (detectStress (-) \<lparr>at_check = 100, at_print = 100, at_store = 100\<rparr> 520 500
           (sketch_setup (power_on (\<lambda>a b c. ()))))"
  by (simp add: fired_detectStress lastEventTime_sketch_setup power_on_def millis_def
      PHASIC_THRESHOLD_def)

text \<open>
  Claim C3, amended. As long as \<open>lastEventTime\<close> still has its initial value \<open>0\<close>, a call
  whose phasic value, the floating-point difference that the call computes, strictly
  exceeds the threshold emits an event exactly when the clock read by the refractory
  check (milliseconds since the start, modulo \<open>2 ^ 32\<close>) strictly exceeds the refractory
  period: the first 2500 ms after the start are a refractory period too.
\<close>

theorem detectStress_first_event_after_refractory_period:
  assumes "lastEventTime s = 0"
    and "fsub currentSignal currentBaseline > PHASIC_THRESHOLD"
  shows "fired s (detectStress fsub c currentSignal currentBaseline s)
           = (at_check c mod 2 ^ 32 > nat REFRACTORY_PERIOD)"
proof -
  have "(2500 < (of_nat (at_check c) :: 32 word)) = (2500 < unat (of_nat (at_check c) :: 32 word))"
    by (simp add: word_less_nat_alt)
  also have "\<dots> = (2500 < at_check c mod 2 ^ 32)"
    by (simp add: unat_of_nat)
  finally show ?thesis
    using assms
    by (simp add: fired_detectStress millis_def PHASIC_THRESHOLD_def REFRACTORY_PERIOD_def)
qed

theorem detectStress_first_event_after_refractory_period_witness:
  "lastEventTime (sketch_setup (power_on (\<lambda>a b c. ()))) = 0
   \<and> (520::real) - 500 > PHASIC_THRESHOLD
   \<and> \<not> fired (sketch_setup (power_on (\<lambda>a b c. ())))
        (detectStress (-) \<lparr>at_check = 2500, at_print = 2500, at_store = 2500\<rparr> 520 500
           (sketch_setup (power_on (\<lambda>a b c. ()))))
   \<and> fired (sketch_setup (power_on (\<lambda>a b c. ())))
        (detectStress (-) \<lparr>at_check = 2501, at_print = 2501, at_store = 2501\<rparr> 520 500
           (sketch_setup (power_on (\<lambda>a b c. ()))))"
proof -
  have h1: "lastEventTime (sketch_setup (power_on (\<lambda>a b c. ()))) = 0"
    by (simp add: lastEventTime_sketch_setup power_on_def)
  have h2: "(520::real) - 500 > PHASIC_THRESHOLD"
    by (simp add: PHASIC_THRESHOLD_def)
  show ?thesis
    using h1 h2
      detectStress_first_event_after_refractory_period [OF h1,
        where fsub = "(-)" and currentSignal = 520 and currentBaseline = 500
          and c = "\<lparr>at_check = 2500, at_print = 2500, at_store = 2500\<rparr>", OF h2]
      detectStress_first_event_after_refractory_period [OF h1,
        where fsub = "(-)" and currentSignal = 520 and currentBaseline = 500
          and c = "\<lparr>at_check = 2501, at_print = 2501, at_store = 2501\<rparr>", OF h2]
    by (simp add: REFRACTORY_PERIOD_def)
qed

text \<open>
  Claim C1. In every run of the tick loop from the state that \<^verbatim>\<open>setup()\<close> leaves, for any
  sensor readings, any behaviour of the filter library, any rounding of the
  floating-point subtraction and any clock that does not run backwards, each stress event is emitted more than \<open>REFRACTORY_PERIOD\<close> milliseconds
  after every earlier one; and the timestamps on the serial port are the clock readings
  \<open>millis\<close> at exactly these emission times.
\<close>

theorem refractory_exclusivity:
  assumes "monotonic 0 ticks"
  shows "sorted_wrt (\<lambda>t t'. t + nat REFRACTORY_PERIOD < t')
           (event_times fsub updateEstimate ticks (sketch_setup (power_on SimpleKalmanFilter)))
       \<and> stress_log (serial (run fsub updateEstimate ticks (sketch_setup (power_on SimpleKalmanFilter))))
           = map millis (event_times fsub updateEstimate ticks (sketch_setup (power_on SimpleKalmanFilter)))"
proof -
  have "word_of_int (lastEventTime (sketch_setup (power_on SimpleKalmanFilter))) = millis 0"
    by (simp add: lastEventTime_sketch_setup power_on_def millis_def)
  from event_times_separated [OF assms this order_refl]
  show ?thesis
    by (simp add: REFRACTORY_PERIOD_def stress_log_run stress_log_boot)
qed

theorem refractory_exclusivity_witness:
  "monotonic 0
       [(520, \<lparr>at_check = 2600, at_print = 2601, at_store = 2602\<rparr>),
        (520, \<lparr>at_check = 4000, at_print = 4001, at_store = 4002\<rparr>),
        (520, \<lparr>at_check = 5102, at_print = 5103, at_store = 5104\<rparr>),
        (520, \<lparr>at_check = 5105, at_print = 5106, at_store = 5107\<rparr>)]
   \<and> event_times (-) (\<lambda>e z. (z - 2 * e, e))
       [(520, \<lparr>at_check = 2600, at_print = 2601, at_store = 2602\<rparr>),
        (520, \<lparr>at_check = 4000, at_print = 4001, at_store = 4002\<rparr>),
        (520, \<lparr>at_check = 5102, at_print = 5103, at_store = 5104\<rparr>),
        (520, \<lparr>at_check = 5105, at_print = 5106, at_store = 5107\<rparr>)]
       (sketch_setup (power_on (\<lambda>a b c. a))) = [2601, 5106]
   \<and> stress_log (serial (run (-) (\<lambda>e z. (z - 2 * e, e))
       [(520, \<lparr>at_check = 2600, at_print = 2601, at_store = 2602\<rparr>),
        (520, \<lparr>at_check = 4000, at_print = 4001, at_store = 4002\<rparr>),
        (520, \<lparr>at_check = 5102, at_print = 5103, at_store = 5104\<rparr>),
        (520, \<lparr>at_check = 5105, at_print = 5106, at_store = 5107\<rparr>)]
       (sketch_setup (power_on (\<lambda>a b c. a))))) = [2601, 5106]"
proof -
  have h: "monotonic 0
       [(520, \<lparr>at_check = 2600, at_print = 2601, at_store = 2602\<rparr>),
        (520, \<lparr>at_check = 4000, at_print = 4001, at_store = 4002\<rparr>),
        (520, \<lparr>at_check = 5102, at_print = 5103, at_store = 5104\<rparr>),
        (520, \<lparr>at_check = 5105, at_print = 5106, at_store = 5107\<rparr>)]"
    by simp
  have e: "event_times (-) (\<lambda>e z. (z - 2 * e, e))
       [(520, \<lparr>at_check = 2600, at_print = 2601, at_store = 2602\<rparr>),
        (520, \<lparr>at_check = 4000, at_print = 4001, at_store = 4002\<rparr>),
        (520, \<lparr>at_check = 5102, at_print = 5103, at_store = 5104\<rparr>),
        (520, \<lparr>at_check = 5105, at_print = 5106, at_store = 5107\<rparr>)]
       (sketch_setup (power_on (\<lambda>a b c. a))) = [2601, 5106]"
    by (simp add: fired_loop lastEventTime_loop lastEventTime_sketch_setup filters_loop
        filters_sketch_setup power_on_def millis_def)
  show ?thesis
    using h e refractory_exclusivity [OF h, where fsub = "(-)"
        and updateEstimate = "\<lambda>e z. (z - 2 * e, e)" and SimpleKalmanFilter = "\<lambda>a b c. a"]
    by (simp add: millis_def)
qed

text \<open>
  Claim C6. One pass of \<open>loop\<close> gives the same sensor reading to the fast and to the
  slow filter, each updated from its own previous state only, and calls the detector
  with the two estimates they return, the fast one as signal and the slow one as
  baseline; the line that the detector prints first shows these two values.
\<close>

theorem loop_feeds_both_filters_then_detector:
  "loop fsub updateEstimate rawValue c s =
     detectStress fsub c
       (fst (updateEstimate (gsrKalmanFilter s) (real_of_int rawValue)))
       (fst (updateEstimate (baselineKalmanFilter s) (real_of_int rawValue)))
       (s\<lparr>gsrKalmanFilter := snd (updateEstimate (gsrKalmanFilter s) (real_of_int rawValue)),
          baselineKalmanFilter := snd (updateEstimate (baselineKalmanFilter s) (real_of_int rawValue))\<rparr>)
   \<and> gsrKalmanFilter (loop fsub updateEstimate rawValue c s)
       = snd (updateEstimate (gsrKalmanFilter s) (real_of_int rawValue))
   \<and> baselineKalmanFilter (loop fsub updateEstimate rawValue c s)
       = snd (updateEstimate (baselineKalmanFilter s) (real_of_int rawValue))
   \<and> take 4 (drop (length (serial s)) (serial (loop fsub updateEstimate rawValue c s)))
       = signal_line (fst (updateEstimate (baselineKalmanFilter s) (real_of_int rawValue)))
           (fst (updateEstimate (gsrKalmanFilter s) (real_of_int rawValue)))"
  by (simp add: filters_loop) (simp add: loop_eq detectStress_cases signal_line_def)

section \<open>The estimator of the specification\<close>

lemma gain_bounds: "well_configured e \<Longrightarrow> 0 < gain e \<and> gain e < 1"
  by (simp add: well_configured_def gain_def Let_def)

lemma update_gain:
  "update e z = (estimate e + gain e * (z - estimate e),
                 e\<lparr>estimate := estimate e + gain e * (z - estimate e),
                   uncertainty := (1 - gain e) * (uncertainty e + processNoise e)\<rparr>)"
  by (simp add: update_def gain_def Let_def)

lemma well_configured_update:
  assumes "well_configured e"
  shows "well_configured (snd (update e z))"
proof -
  from assms have "0 < uncertainty e + processNoise e"
    by (simp add: well_configured_def)
  moreover from gain_bounds [OF assms] have "0 < 1 - gain e" by simp
  ultimately have "0 < (1 - gain e) * (uncertainty e + processNoise e)"
    by (rule mult_pos_pos [rotated])
  with assms show ?thesis
    by (simp add: update_gain well_configured_def)
qed

lemma well_configured_updates: "well_configured e \<Longrightarrow> well_configured (updates e zs)"
  by (induction zs arbitrary: e) (simp_all add: well_configured_update)

lemma between:
  assumes "0 < k" "k < 1"
  shows "min a z \<le> a + k * (z - a) \<and> a + k * (z - a) \<le> max a (z::real)"
proof (cases "a \<le> z")
  case True
  with assms have "0 \<le> k * (z - a)" and "0 \<le> (1 - k) * (z - a)"
    by simp_all
  then have "0 \<le> k * (z - a)" and "k * (z - a) \<le> z - a"
    by (simp_all only: algebra_simps)
  with True show ?thesis by linarith
next
  case False
  with assms have "k * (z - a) \<le> 0" and "(1 - k) * (z - a) \<le> 0"
    by (simp_all add: mult_le_0_iff)
  then have "k * (z - a) \<le> 0" and "z - a \<le> k * (z - a)"
    by (simp_all add: algebra_simps)
  with False show ?thesis by linarith
qed

text \<open>
  Claim C8. For an estimator with positive noise parameters and non-negative
  uncertainty, after any sequence of updates, the next update of the four-step cycle has
  its gain strictly between 0 and 1, its new estimate is the gain-weighted mean of the
  prior estimate and the raw sample and so lies between the two, and its new uncertainty
  is \<open>(1 - k) * (p + q)\<close> and stays non-negative.
\<close>

theorem update_gain_and_estimate:
  assumes "well_configured e"
  shows "0 < gain (updates e zs) \<and> gain (updates e zs) < 1
       \<and> fst (update (updates e zs) z)
           = (1 - gain (updates e zs)) * estimate (updates e zs) + gain (updates e zs) * z
       \<and> min (estimate (updates e zs)) z \<le> fst (update (updates e zs) z)
       \<and> fst (update (updates e zs) z) \<le> max (estimate (updates e zs)) z
       \<and> estimate (snd (update (updates e zs) z)) = fst (update (updates e zs) z)
       \<and> uncertainty (snd (update (updates e zs) z))
           = (1 - gain (updates e zs)) * (uncertainty (updates e zs) + processNoise (updates e zs))
       \<and> 0 \<le> uncertainty (snd (update (updates e zs) z))"
proof -
  let ?e = "updates e zs"
  have wc: "well_configured ?e"
    using assms by (rule well_configured_updates)
  have g: "0 < gain ?e" "gain ?e < 1"
    using gain_bounds [OF wc] by simp_all
  have "0 \<le> uncertainty (snd (update ?e z))"
    using well_configured_update [OF wc, of z] by (simp add: well_configured_def)
  moreover have "fst (update ?e z) = (1 - gain ?e) * estimate ?e + gain ?e * z"
    by (simp add: update_gain algebra_simps)
  moreover have "min (estimate ?e) z \<le> fst (update ?e z) \<and> fst (update ?e z) \<le> max (estimate ?e) z"
    using between [OF g] by (simp add: update_gain)
  ultimately show ?thesis
    using g by (simp add: update_gain)
qed

theorem update_gain_and_estimate_witness:
  "well_configured \<lparr>estimate = 500, uncertainty = 2, processNoise = 1, measurementNoise = 3\<rparr>
   \<and> gain (updates \<lparr>estimate = 500, uncertainty = 2, processNoise = 1, measurementNoise = 3\<rparr> [520]) = 5 / 11
   \<and> fst (update (updates \<lparr>estimate = 500, uncertainty = 2, processNoise = 1, measurementNoise = 3\<rparr> [520]) 532) = 520"
proof -
  have h: "well_configured \<lparr>estimate = 500, uncertainty = 2, processNoise = 1, measurementNoise = 3\<rparr>"
    by (simp add: well_configured_def)
  show ?thesis
    using h update_gain_and_estimate [OF h, of "[520]" 532]
    by (simp add: update_gain gain_def)
qed

end
